theory Spec2Isabelle
  imports Complex_Main "HOL-Library.AList"
begin

section \<open>Values, errors and responses\<close>

text \<open>
  The relational service (\<open>src/REST API/server.js\<close>) is an Express application whose
  handlers validate the request with zod, run one or two SQL statements through the
  \<open>postgres\<close> driver and answer with \<open>res.json\<close>. The values that flow through it are
  JSON-like JavaScript values. The handlers are written over an abstract type of numbers
  (\<open>'n\<close>) and a record of what the runtime does with them; the arithmetic of order
  creation is then fixed to IEEE binary64, which is what JavaScript numbers are.
  Objects are association lists read with \<open>map_of\<close> (first binding wins).
\<close>

datatype 'n jsval =
    JUndefined
  | JNull
  | JBool bool
  | JNum 'n
  | JStr string
  | JArr "'n jsval list"
  | JObj "(string \<times> 'n jsval) list"

type_synonym 'n row = "(string \<times> 'n jsval) list"

text \<open>
  The field types of the schemas, and a validation issue: the path of the refused
  value, the field type that refused it (none when the input is not an object at all)
  and the value received.
\<close>

datatype ztype =
    ZString
  | ZStringEmail
  | ZStringMin nat
  | ZNumber
  | ZNumberPositive
  | ZOptional ztype

datatype 'n zissue = ZIssue "string list" "ztype option" "'n jsval"

definition issue_path :: "'n zissue \<Rightarrow> string list" where
  "issue_path i = (case i of ZIssue path t v \<Rightarrow> path)"

text \<open>What the runtime, zod and the datastore decide about numbers and strings.\<close>

record 'n runtime =
  num_mul :: "'n \<Rightarrow> 'n \<Rightarrow> 'n"
  num_1_2 :: "'n"
  num_positive :: "'n \<Rightarrow> bool"
  num_isNaN :: "'n \<Rightarrow> bool"
  to_number :: "'n jsval \<Rightarrow> 'n"
  parseFloat :: "string \<Rightarrow> 'n"
  email_regex :: "string \<Rightarrow> bool"
  sql_eq :: "'n jsval \<Rightarrow> 'n jsval \<Rightarrow> bool"
  zod_errors :: "'n zissue list \<Rightarrow> 'n jsval"

text \<open>
  \<open>num_mul\<close> is the operator \<open>*\<close> on two numbers, \<open>num_1_2\<close> the literal \<open>1.2\<close>,
  \<open>num_positive x\<close> the comparison \<open>x > 0\<close>, \<open>num_isNaN\<close> the test by which
  \<open>z.number()\<close> refuses NaN, \<open>to_number\<close> the conversion ToNumber of a value that is
  not a number (a numeric column may reach the handler as a string),
  \<open>email_regex\<close> the test behind \<open>z.string().email()\<close>, \<open>sql_eq c p\<close> the
  datastore's \<open>=\<close> between a column value \<open>c\<close> and a bound parameter \<open>p\<close> (a route
  parameter is always bound as a string), and \<open>zod_errors\<close> the value of
  \<open>result.error.errors\<close> for the issues of a failed validation.
\<close>

datatype js_error =
    ReferenceError string
  | TypeError string
  | ZodError "string list list"
  | PostgresError string

definition error_message :: "js_error \<Rightarrow> string" where
  "error_message e =
     (case e of ReferenceError x \<Rightarrow> x @ '' is not defined''
      | TypeError k \<Rightarrow> ''Cannot read properties of undefined''
      | ZodError issues \<Rightarrow> ''Invalid input''
      | PostgresError m \<Rightarrow> m)"

text \<open>
  A handler either answers (\<open>res.status(s).json(b)\<close>; \<open>res.json(b)\<close> answers 200) or
  throws an error that it does not catch: its promise rejects and the handler itself
  sends nothing.
\<close>

datatype 'n outcome = Response nat "'n jsval" | Uncaught js_error

definition message :: "string \<Rightarrow> 'n jsval" where
  "message m = JObj [(''message'', JStr m)]"

section \<open>Names in scope\<close>

text \<open>
  The bindings of the module are the \<open>const\<close> declarations of lines 1 to 69 of
  server.js; \<open>runtime_globals\<close> lists the globals of Node that the module reads.
  Reading a name that is neither a local of the handler, nor a binding of the module,
  nor a global throws a ReferenceError. The module declares no \<open>bcrypt\<close> and no \<open>i\<close>,
  and Node has no global of either name.
\<close>

definition module_bindings :: "string list" where
  "module_bindings =
     [''express'', ''postgres'', ''z'', ''app'', ''port'', ''sql'', ''swaggerUi'',
      ''swaggerJsdoc'', ''options'', ''specs'', ''ProductSchema'', ''CreateProductSchema'',
      ''UserSchema'', ''UpdateUserSchema'', ''CreateOrderSchema'', ''UpdateOrderSchema'',
      ''CreateUserSchema'', ''getUsers'']"

definition runtime_globals :: "string list" where
  "runtime_globals = [''require'', ''console'', ''Object'', ''parseFloat'']"

definition read_identifier :: "string list \<Rightarrow> string \<Rightarrow> js_error option" where
  "read_identifier locals x =
     (if x \<in> set locals \<or> x \<in> set module_bindings \<or> x \<in> set runtime_globals
      then None else Some (ReferenceError x))"

section \<open>Schemas\<close>

type_synonym zobject = "(string \<times> ztype) list"

fun zaccepts :: "'n runtime \<Rightarrow> ztype \<Rightarrow> 'n jsval \<Rightarrow> bool" where
  "zaccepts rt ZString v = (case v of JStr s \<Rightarrow> True | _ \<Rightarrow> False)"
| "zaccepts rt ZStringEmail v = (case v of JStr s \<Rightarrow> email_regex rt s | _ \<Rightarrow> False)"
| "zaccepts rt (ZStringMin k) v = (case v of JStr s \<Rightarrow> k \<le> length s | _ \<Rightarrow> False)"
| "zaccepts rt ZNumber v = (case v of JNum n \<Rightarrow> \<not> num_isNaN rt n | _ \<Rightarrow> False)"
| "zaccepts rt ZNumberPositive v =
     (case v of JNum n \<Rightarrow> \<not> num_isNaN rt n \<and> num_positive rt n | _ \<Rightarrow> False)"
| "zaccepts rt (ZOptional t) v = (v = JUndefined \<or> zaccepts rt t v)"

text \<open>
  An object schema reads each key of its shape from the input, reports an issue for
  every key whose value is refused, and copies the accepted keys that the input has;
  keys the shape does not name are dropped.
\<close>

fun zparse_fields ::
  "'n runtime \<Rightarrow> zobject \<Rightarrow> 'n row \<Rightarrow> 'n zissue list \<times> 'n row" where
  "zparse_fields rt [] inp = ([], [])"
| "zparse_fields rt ((k, t) # sh) inp =
     (let (issues, out) = zparse_fields rt sh inp in
      case map_of inp k of
        None \<Rightarrow>
          if zaccepts rt t JUndefined then (issues, out)
          else (ZIssue [k] (Some t) JUndefined # issues, out)
      | Some v \<Rightarrow>
          if zaccepts rt t v then (issues, (k, v) # out)
          else (ZIssue [k] (Some t) v # issues, out))"

definition safeParse ::
  "'n runtime \<Rightarrow> zobject \<Rightarrow> 'n jsval \<Rightarrow> 'n zissue list + 'n row" where
  "safeParse rt shape body =
     (case body of
        JObj inp \<Rightarrow>
          (case zparse_fields rt shape inp of
             ([], out) \<Rightarrow> Inr out
           | (i # issues, out) \<Rightarrow> Inl (i # issues))
      | _ \<Rightarrow> Inl [ZIssue [] None body])"

text \<open>\<open>omit\<close> keeps the keys of the shape whose entry in the mask is not truthy.\<close>

definition omit :: "(string \<times> bool) list \<Rightarrow> zobject \<Rightarrow> zobject" where
  "omit msk shape = filter (\<lambda>(k, t). map_of msk k \<noteq> Some True) shape"

definition ProductSchema :: zobject where
  "ProductSchema =
     [(''id'', ZString), (''name'', ZString), (''about'', ZString),
      (''price'', ZNumberPositive)]"

definition CreateProductSchema :: zobject where
  "CreateProductSchema = omit [(''id'', True)] ProductSchema"

definition UserSchema :: zobject where
  "UserSchema =
     [(''id'', ZNumber), (''name'', ZString), (''email'', ZString),
      (''password'', ZString)]"

definition UpdateUserSchema :: zobject where
  "UpdateUserSchema =
     [(''name'', ZOptional ZString), (''email'', ZOptional ZStringEmail),
      (''password'', ZOptional (ZStringMin 5))]"

definition CreateOrderSchema :: zobject where
  "CreateOrderSchema =
     [(''userId'', ZNumber), (''productId'', ZNumber), (''quantity'', ZNumberPositive)]"

definition UpdateOrderSchema :: zobject where
  "UpdateOrderSchema =
     [(''userId'', ZOptional ZNumber), (''productId'', ZOptional ZNumber),
      (''quantity'', ZOptional ZNumberPositive)]"

definition CreateUserSchema :: zobject where
  "CreateUserSchema = omit [(''id'', True)] UserSchema"

definition getUsers :: zobject where
  "getUsers = omit [(''password'', False)] UserSchema"

section \<open>The datastore\<close>

text \<open>
  Three tables, each a list of rows in storage order. The definition of the tables is
  not part of the repository: statements are taken to reach the datastore and, but for
  a column the table does not have, to succeed; a bound value is stored as given; the
  identifier a table's default gives an inserted row and the value of \<open>NOW()\<close> come with
  the request. The statements on products and users name lower-case columns only; those
  on orders name columns with capital letters, so the store also holds the names of
  the columns of the orders table as it was created.
\<close>

record 'n store =
  products :: "'n row list"
  users :: "'n row list"
  orders :: "'n row list"
  orders_columns :: "string list"

record 'n db_defaults =
  next_id :: "'n jsval"
  now :: "'n jsval"

text \<open>
  The datastore folds an identifier written without quotes to lower case and takes a
  quoted one as it is; a statement that names a column the table does not have is
  refused.
\<close>

definition fold_identifier :: "string \<Rightarrow> string" where
  "fold_identifier =
     map (\<lambda>c. case map_of (zip ''ABCDEFGHIJKLMNOPQRSTUVWXYZ'' ''abcdefghijklmnopqrstuvwxyz'') c of
                 None \<Rightarrow> c
               | Some l \<Rightarrow> l)"

definition no_such_column :: "string \<Rightarrow> string \<Rightarrow> string" where
  "no_such_column c tbl =
     ''column '' @ [CHR 0x22] @ c @ [CHR 0x22] @ '' of relation '' @ [CHR 0x22] @ tbl @
     [CHR 0x22] @ '' does not exist''"

definition check_columns :: "string list \<Rightarrow> string \<Rightarrow> string list \<Rightarrow> js_error option" where
  "check_columns table_columns tbl cols =
     (case filter (\<lambda>c. c \<notin> set table_columns) cols of
        [] \<Rightarrow> None
      | c # _ \<Rightarrow> Some (PostgresError (no_such_column c tbl)))"

definition field :: "'n row \<Rightarrow> string \<Rightarrow> 'n jsval" where
  "field obj k = (case map_of obj k of None \<Rightarrow> JUndefined | Some v \<Rightarrow> v)"

definition column :: "'n row \<Rightarrow> string \<Rightarrow> 'n jsval" where
  "column r c = (case map_of r c of None \<Rightarrow> JNull | Some v \<Rightarrow> v)"

definition where_id :: "'n runtime \<Rightarrow> 'n jsval \<Rightarrow> 'n row \<Rightarrow> bool" where
  "where_id rt p r = sql_eq rt (column r ''id'') p"

definition select_by_id :: "'n runtime \<Rightarrow> 'n row list \<Rightarrow> 'n jsval \<Rightarrow> 'n row list" where
  "select_by_id rt tbl p = filter (where_id rt p) tbl"

definition select_price_by_id ::
  "'n runtime \<Rightarrow> 'n row list \<Rightarrow> 'n jsval \<Rightarrow> 'n row list" where
  "select_price_by_id rt tbl p =
     map (\<lambda>r. [(''price'', column r ''price'')]) (filter (where_id rt p) tbl)"

definition delete_by_id ::
  "'n runtime \<Rightarrow> 'n row list \<Rightarrow> 'n jsval \<Rightarrow> 'n row list \<times> 'n row list" where
  "delete_by_id rt tbl p =
     (filter (where_id rt p) tbl, filter (\<lambda>r. \<not> where_id rt p r) tbl)"

definition set_columns :: "'n row \<Rightarrow> 'n row \<Rightarrow> 'n row" where
  "set_columns assigns r = fold (\<lambda>(c, v). AList.update c v) assigns r"

definition update_by_id ::
  "'n runtime \<Rightarrow> 'n row list \<Rightarrow> 'n row \<Rightarrow> 'n jsval \<Rightarrow> 'n row list \<times> 'n row list" where
  "update_by_id rt tbl assigns p =
     (map (set_columns assigns) (filter (where_id rt p) tbl),
      map (\<lambda>r. if where_id rt p r then set_columns assigns r else r) tbl)"

definition insert_returning :: "'n row list \<Rightarrow> 'n row \<Rightarrow> 'n row list \<times> 'n row list" where
  "insert_returning tbl r = ([r], tbl @ [r])"

text \<open>
  The helper \<open>sql(obj, ...columns)\<close> binds \<open>obj[c]\<close> for each listed column (every key
  of \<open>obj\<close> when none is listed) and refuses an undefined value.
\<close>

fun sql_columns :: "'n row \<Rightarrow> string list \<Rightarrow> js_error + 'n row" where
  "sql_columns obj [] = Inr []"
| "sql_columns obj (c # cs) =
     (if field obj c = JUndefined then Inl (PostgresError ''UNDEFINED_VALUE'')
      else case sql_columns obj cs of
             Inl e \<Rightarrow> Inl e
           | Inr as \<Rightarrow> Inr ((c, field obj c) # as))"

definition sql_helper :: "'n row \<Rightarrow> string list \<Rightarrow> js_error + 'n row" where
  "sql_helper obj cols = sql_columns obj (if cols = [] then map fst obj else cols)"

text \<open>
  \<open>const [x] = rows\<close> binds the first row, or \<open>undefined\<close> (here \<open>None\<close>) when there
  is none; \<open>x.k\<close> then throws on \<open>undefined\<close> and reads a missing key as \<open>undefined\<close>.
\<close>

definition first_row :: "'n row list \<Rightarrow> 'n row option" where
  "first_row rows = (case rows of [] \<Rightarrow> None | r # _ \<Rightarrow> Some r)"

definition read_property :: "'n row option \<Rightarrow> string \<Rightarrow> js_error + 'n jsval" where
  "read_property x k =
     (case x of None \<Rightarrow> Inl (TypeError k) | Some r \<Rightarrow> Inr (field r k))"

definition json_of :: "'n row option \<Rightarrow> 'n jsval" where
  "json_of x = (case x of None \<Rightarrow> JUndefined | Some r \<Rightarrow> JObj r)"

definition as_number :: "'n runtime \<Rightarrow> 'n jsval \<Rightarrow> 'n" where
  "as_number rt v = (case v of JNum n \<Rightarrow> n | _ \<Rightarrow> to_number rt v)"

definition js_times :: "'n runtime \<Rightarrow> 'n jsval \<Rightarrow> 'n jsval \<Rightarrow> 'n jsval" where
  "js_times rt a b = JNum (num_mul rt (as_number rt a) (as_number rt b))"

text \<open>\<open>v > 0\<close>; \<open>undefined\<close> converts to NaN, which compares false.\<close>

definition js_gt_zero :: "'n runtime \<Rightarrow> 'n jsval \<Rightarrow> bool" where
  "js_gt_zero rt v =
     (case v of JUndefined \<Rightarrow> False | _ \<Rightarrow> num_positive rt (as_number rt v))"

section \<open>Order creation\<close>

text \<open>
  \<open>app.post("/orders")\<close>, lines 499 to 529. The columns of the INSERT are written
  without quotes, so the datastore reads them in lower case; when the orders table lacks
  one of them the statement is refused, the handler's \<open>catch\<close> answers 500 with the
  message of the error, and nothing is stored. The inserted row is written with the
  identifier first, then the columns of the statement.
\<close>

definition post_orders ::
  "'n runtime \<Rightarrow> 'n db_defaults \<Rightarrow> 'n jsval \<Rightarrow> 'n store \<Rightarrow> 'n outcome \<times> 'n store" where
  "post_orders rt env body st =
     (case safeParse rt CreateOrderSchema body of
        Inl issues \<Rightarrow>
          (Response 400
             (JObj [(''message'', JStr ''Invalid order data''),
                    (''errors'', zod_errors rt issues)]),
           st)
      | Inr data \<Rightarrow>
          (case first_row (select_price_by_id rt (products st) (field data ''productId'')) of
             None \<Rightarrow> (Response 404 (message ''Product not found''), st)
           | Some product \<Rightarrow>
               (let vatRate = JNum (num_1_2 rt);
                    total = js_times rt (js_times rt (field product ''price'') (field data ''quantity'')) vatRate;
                    cols = map fold_identifier
                             [''userId'', ''productId'', ''quantity'', ''total'', ''createdAt'',
                              ''updatedAt''];
                    vals = [field data ''userId'', field data ''productId'',
                            field data ''quantity'', total, now env, now env]
                in case check_columns (orders_columns st) ''orders'' cols of
                     Some error \<Rightarrow>
                       (Response 500
                          (JObj [(''message'', JStr ''Failed to create order''),
                                 (''error'', JStr (error_message error))]), st)
                   | None \<Rightarrow>
                       (let (returned, tbl) =
                              insert_returning (orders st) ((''id'', next_id env) # zip cols vals)
                        in (Response 201 (json_of (first_row returned)), st\<lparr>orders := tbl\<rparr>)))))"

section \<open>Products\<close>

text \<open>
  \<open>app.get("/products")\<close>, lines 98 to 130. A query parameter is a string or absent; the
  handler tests it for truthiness, so an empty string adds no condition. A condition is
  a column and the number of its placeholder; the statement is refused when a
  placeholder has no value, and the handler answers 500 to that.
\<close>

definition push_condition ::
  "string \<Rightarrow> string option \<Rightarrow> (string \<Rightarrow> 'n jsval) \<Rightarrow>
   (string \<times> nat) list \<times> 'n jsval list \<Rightarrow> (string \<times> nat) list \<times> 'n jsval list" where
  "push_condition col q conv cv =
     (case cv of (conditions, vals) \<Rightarrow>
        (case q of
           None \<Rightarrow> (conditions, vals)
         | Some s \<Rightarrow>
             if s = [] then (conditions, vals)
             else (conditions @ [(col, length conditions + 1)], vals @ [conv s])))"

fun bind_placeholders ::
  "(string \<times> nat) list \<Rightarrow> 'n jsval list \<Rightarrow> js_error + (string \<times> 'n jsval) list" where
  "bind_placeholders [] vals = Inr []"
| "bind_placeholders ((c, i) # cs) vals =
     (if 1 \<le> i \<and> i \<le> length vals then
        (case bind_placeholders cs vals of
           Inl e \<Rightarrow> Inl e
         | Inr ps \<Rightarrow> Inr ((c, vals ! (i - 1)) # ps))
      else Inl (PostgresError ''there is no parameter''))"

definition satisfies :: "'n runtime \<Rightarrow> (string \<times> 'n jsval) list \<Rightarrow> 'n row \<Rightarrow> bool" where
  "satisfies rt ps r = list_all (\<lambda>(c, p). sql_eq rt (column r c) p) ps"

definition sql_unsafe ::
  "'n runtime \<Rightarrow> 'n row list \<Rightarrow> (string \<times> nat) list \<Rightarrow> 'n jsval list \<Rightarrow>
   js_error + 'n row list" where
  "sql_unsafe rt tbl conditions vals =
     (case bind_placeholders conditions vals of
        Inl e \<Rightarrow> Inl e
      | Inr ps \<Rightarrow> Inr (filter (satisfies rt ps) tbl))"

definition get_products ::
  "'n runtime \<Rightarrow> (string \<Rightarrow> string option) \<Rightarrow> 'n store \<Rightarrow> 'n outcome \<times> 'n store" where
  "get_products rt query st =
     (let cv = push_condition ''name'' (query ''name'') JStr ([], []);
          cv = push_condition ''about'' (query ''about'') JStr cv;
          cv = push_condition ''price'' (query ''price'') (\<lambda>s. JNum (parseFloat rt s)) cv
      in case sql_unsafe rt (products st) (fst cv) (snd cv) of
           Inr rows \<Rightarrow> (Response 200 (JArr (map JObj rows)), st)
         | Inl e \<Rightarrow>
             (Response 500
                (JObj [(''message'', JStr ''Error accessing the database''),
                       (''error'', JStr (error_message e))]), st))"

text \<open>The message of the product handlers ends in the letter e with an acute accent.\<close>

definition produit_non_trouve :: string where
  "produit_non_trouve = ''Produit non trouv'' @ [CHR 0xE9]"

text \<open>\<open>app.get("/products/:id")\<close>, lines 157 to 166.\<close>

definition get_products_id ::
  "'n runtime \<Rightarrow> string \<Rightarrow> 'n store \<Rightarrow> 'n outcome \<times> 'n store" where
  "get_products_id rt pid st =
     (let product = first_row (select_by_id rt (products st) (JStr pid))
      in case read_property product ''length'' of
           Inl e \<Rightarrow> (Uncaught e, st)
         | Inr len \<Rightarrow>
             if js_gt_zero rt len then (Response 200 (json_of product), st)
             else (Response 404 (message produit_non_trouve), st))"

text \<open>\<open>app.post("/products")\<close>, lines 190 to 202.\<close>

definition post_products ::
  "'n runtime \<Rightarrow> 'n db_defaults \<Rightarrow> 'n jsval \<Rightarrow> 'n store \<Rightarrow> 'n outcome \<times> 'n store" where
  "post_products rt env body st =
     (case safeParse rt CreateProductSchema body of
        Inr data \<Rightarrow>
          (case sql_helper data [''name'', ''about'', ''price''] of
             Inl e \<Rightarrow> (Uncaught e, st)
           | Inr cols \<Rightarrow>
               (let (returned, tbl) =
                      insert_returning (products st) ((''id'', next_id env) # cols);
                    product = first_row returned
                in case read_property product ''0'' of
                     Inl e \<Rightarrow> (Uncaught e, st\<lparr>products := tbl\<rparr>)
                   | Inr v \<Rightarrow> (Response 200 v, st\<lparr>products := tbl\<rparr>)))
      | Inl issues \<Rightarrow> (Response 400 (message ''Invalid request body''), st))"

text \<open>\<open>app.delete("/products/:id")\<close>, lines 229 to 238.\<close>

definition delete_products_id ::
  "'n runtime \<Rightarrow> string \<Rightarrow> 'n store \<Rightarrow> 'n outcome \<times> 'n store" where
  "delete_products_id rt pid st =
     (let (returned, tbl) = delete_by_id rt (products st) (JStr pid);
          product = first_row returned
      in case read_property product ''length'' of
           Inl e \<Rightarrow> (Uncaught e, st\<lparr>products := tbl\<rparr>)
         | Inr len \<Rightarrow>
             if js_gt_zero rt len then (Response 200 (json_of product), st\<lparr>products := tbl\<rparr>)
             else (Response 404 (message produit_non_trouve), st\<lparr>products := tbl\<rparr>))"

section \<open>Users\<close>

text \<open>
  \<open>app.get("/users")\<close>, lines 258 to 261: every row goes through \<open>getUsers.parse\<close>,
  which throws where \<open>safeParse\<close> reports issues.
\<close>

fun parse_each :: "'n runtime \<Rightarrow> zobject \<Rightarrow> 'n row list \<Rightarrow> js_error + 'n row list" where
  "parse_each rt shape [] = Inr []"
| "parse_each rt shape (r # rs) =
     (case safeParse rt shape (JObj r) of
        Inl issues \<Rightarrow> Inl (ZodError (map issue_path issues))
      | Inr d \<Rightarrow>
          (case parse_each rt shape rs of
             Inl e \<Rightarrow> Inl e
           | Inr ds \<Rightarrow> Inr (d # ds)))"

definition get_users :: "'n runtime \<Rightarrow> 'n store \<Rightarrow> 'n outcome \<times> 'n store" where
  "get_users rt st =
     (case parse_each rt getUsers (users st) of
        Inl e \<Rightarrow> (Uncaught e, st)
      | Inr us \<Rightarrow> (Response 200 (JArr (map JObj us)), st))"

text \<open>\<open>app.get("/users/:id")\<close>, lines 288 to 296.\<close>

definition get_users_id :: "'n runtime \<Rightarrow> string \<Rightarrow> 'n store \<Rightarrow> 'n outcome \<times> 'n store" where
  "get_users_id rt uid st =
     (let user = first_row (select_by_id rt (users st) (JStr uid))
      in if user \<noteq> None then (Response 200 (json_of user), st)
         else (Response 404 (message ''User not found''), st))"

text \<open>
  \<open>app.post("/users")\<close>, lines 322 to 336. The handler reads the name \<open>bcrypt\<close>;
  \<open>bcrypt_hash\<close> stands for what \<open>bcrypt.hash(password, 10)\<close> would give were the name
  bound. The answer is \<open>result.data\<close>, not the inserted row.
\<close>

definition post_users ::
  "'n runtime \<Rightarrow> ('n jsval \<Rightarrow> 'n jsval) \<Rightarrow> 'n db_defaults \<Rightarrow> 'n jsval \<Rightarrow> 'n store \<Rightarrow>
   'n outcome \<times> 'n store" where
  "post_users rt bcrypt_hash env body st =
     (case safeParse rt CreateUserSchema body of
        Inr data \<Rightarrow>
          (case read_identifier [''req'', ''res'', ''result''] ''bcrypt'' of
             Some e \<Rightarrow> (Uncaught e, st)
           | None \<Rightarrow>
               (let hashedPassword = bcrypt_hash (field data ''password'');
                    data = AList.update ''password'' hashedPassword data
                in case sql_helper data [''name'', ''email'', ''password''] of
                     Inl e \<Rightarrow> (Uncaught e, st)
                   | Inr cols \<Rightarrow>
                       (let (returned, tbl) =
                              insert_returning (users st) ((''id'', next_id env) # cols)
                        in (Response 200 (JObj data), st\<lparr>users := tbl\<rparr>))))
      | Inl issues \<Rightarrow> (Response 400 (message ''Invalid request body''), st))"

text \<open>\<open>app.delete("/users/:id")\<close>, lines 364 to 373.\<close>

definition delete_users_id ::
  "'n runtime \<Rightarrow> string \<Rightarrow> 'n store \<Rightarrow> 'n outcome \<times> 'n store" where
  "delete_users_id rt uid st =
     (let (returned, tbl) = delete_by_id rt (users st) (JStr uid);
          user = first_row returned
      in if user \<noteq> None then (Response 200 (json_of user), st\<lparr>users := tbl\<rparr>)
         else (Response 404 (message ''User not found''), st\<lparr>users := tbl\<rparr>))"

text \<open>\<open>app.put("/users/:id")\<close>, lines 408 to 422.\<close>

definition put_users_id ::
  "'n runtime \<Rightarrow> string \<Rightarrow> 'n jsval \<Rightarrow> 'n store \<Rightarrow> 'n outcome \<times> 'n store" where
  "put_users_id rt uid body st =
     (case safeParse rt CreateUserSchema body of
        Inr data \<Rightarrow>
          (case sql_helper data [''name'', ''email'', ''password''] of
             Inl e \<Rightarrow> (Uncaught e, st)
           | Inr assigns \<Rightarrow>
               (let (returned, tbl) = update_by_id rt (users st) assigns (JStr uid);
                    user = first_row returned
                in (Response 200 (json_of user), st\<lparr>users := tbl\<rparr>)))
      | Inl issues \<Rightarrow> (Response 400 (message ''Invalid request body''), st))"

text \<open>
  \<open>app.patch("/users/:id")\<close>, lines 450 to 478. Line 452 is the statement \<open>i;\<close>, which
  reads the name \<open>i\<close>. The \<open>reduce\<close> copies the keys whose value is not \<open>undefined\<close>.
\<close>

definition defined_fields :: "'n row \<Rightarrow> 'n row" where
  "defined_fields data =
     fold (\<lambda>key acc. if field data key \<noteq> JUndefined
                      then AList.update key (field data key) acc else acc)
       (map fst data) []"

definition patch_users_id ::
  "'n runtime \<Rightarrow> string \<Rightarrow> 'n jsval \<Rightarrow> 'n store \<Rightarrow> 'n outcome \<times> 'n store" where
  "patch_users_id rt uid body st =
     (let result = safeParse rt UpdateUserSchema body
      in case read_identifier [''req'', ''res'', ''result''] ''i'' of
           Some e \<Rightarrow> (Uncaught e, st)
         | None \<Rightarrow>
             (case result of
                Inr data \<Rightarrow>
                  (let updates = defined_fields data
                   in if length (map fst updates) = 0
                      then (Response 400 (message ''No valid fields provided for update''), st)
                      else case sql_helper updates [] of
                             Inl e \<Rightarrow> (Uncaught e, st)
                           | Inr assigns \<Rightarrow>
                               (let (returned, tbl) =
                                      update_by_id rt (users st) assigns (JStr uid);
                                    user = first_row returned
                                in (Response 200 (json_of user), st\<lparr>users := tbl\<rparr>)))
              | Inl issues \<Rightarrow> (Response 400 (message ''Invalid request body''), st)))"

section \<open>Orders: reading, deleting, updating\<close>

text \<open>\<open>app.get("/orders")\<close>, lines 544 to 547.\<close>

definition get_orders :: "'n store \<Rightarrow> 'n outcome \<times> 'n store" where
  "get_orders st = (Response 200 (JArr (map JObj (orders st))), st)"

text \<open>\<open>app.get("/orders/:id")\<close>, lines 571 to 579.\<close>

definition get_orders_id :: "'n runtime \<Rightarrow> string \<Rightarrow> 'n store \<Rightarrow> 'n outcome \<times> 'n store" where
  "get_orders_id rt oid st =
     (let order = first_row (select_by_id rt (orders st) (JStr oid))
      in if order \<noteq> None then (Response 200 (json_of order), st)
         else (Response 404 (message ''Order not found''), st))"

text \<open>\<open>app.delete("/orders/:id")\<close>, lines 602 to 611.\<close>

definition delete_orders_id ::
  "'n runtime \<Rightarrow> string \<Rightarrow> 'n store \<Rightarrow> 'n outcome \<times> 'n store" where
  "delete_orders_id rt oid st =
     (let (returned, tbl) = delete_by_id rt (orders st) (JStr oid);
          order = first_row returned
      in if order \<noteq> None then (Response 200 (json_of order), st\<lparr>orders := tbl\<rparr>)
         else (Response 404 (message ''Order not found''), st\<lparr>orders := tbl\<rparr>))"

text \<open>
  \<open>app.patch("/orders/:id")\<close>, lines 638 to 652. The statement helper quotes the
  column names it is given, so the datastore takes them as written.
\<close>

definition patch_orders_id ::
  "'n runtime \<Rightarrow> string \<Rightarrow> 'n jsval \<Rightarrow> 'n store \<Rightarrow> 'n outcome \<times> 'n store" where
  "patch_orders_id rt oid body st =
     (case safeParse rt UpdateOrderSchema body of
        Inr data \<Rightarrow>
          (case sql_helper data [''userId'', ''productId'', ''quantity''] of
             Inl e \<Rightarrow> (Uncaught e, st)
           | Inr assigns \<Rightarrow>
               (case check_columns (orders_columns st) ''orders'' (map fst assigns) of
                  Some e \<Rightarrow> (Uncaught e, st)
                | None \<Rightarrow>
                    (let (returned, tbl) = update_by_id rt (orders st) assigns (JStr oid);
                         order = first_row returned
                     in (Response 200 (json_of order), st\<lparr>orders := tbl\<rparr>))))
      | Inl issues \<Rightarrow> (Response 400 (message ''Invalid request body''), st))"

section \<open>Binary64 numbers\<close>

text \<open>
  A JavaScript number is an IEEE 754 binary64 value. A finite one is written here as a
  sign, a natural mantissa \<open>m\<close> and an exponent \<open>e\<close>, standing for \<open>m * 2 ^ e\<close> with the
  sign (zero has a sign too); the values the functions below return have an odd
  mantissa below \<open>2 ^ 53\<close>, or are a zero with exponent 0.
\<close>

datatype f64 = F64 bool nat int | F64_Inf bool | F64_NaN

definition f64_value :: "f64 \<Rightarrow> rat option" where
  "f64_value x =
     (case x of
        F64 s m e \<Rightarrow>
          Some ((if s then - 1 else 1) * of_nat m *
                (if 0 \<le> e then 2 ^ nat e else 1 / 2 ^ nat (- e)))
      | _ \<Rightarrow> None)"

fun bit_length :: "nat \<Rightarrow> nat" where
  "bit_length n = (if n = 0 then 0 else Suc (bit_length (n div 2)))"

fun strip_zeros :: "nat \<Rightarrow> int \<Rightarrow> nat \<times> int" where
  "strip_zeros m e = (if m = 0 \<or> odd m then (m, e) else strip_zeros (m div 2) (e + 1))"

text \<open>
  \<open>finish s m e\<close> is the number \<open>m * 2 ^ e\<close> once it is known to need no rounding:
  infinite from \<open>2 ^ 1024\<close> on. \<open>round_f64 s m e\<close> rounds \<open>m * 2 ^ e\<close> to the nearest
  number, ties to the even mantissa: the last place kept is \<open>2 ^ q\<close>, 53 bits below the
  leading bit and never below \<open>2 ^ - 1074\<close>. \<open>round_ratio s a b\<close> rounds \<open>a / b\<close> the
  same way, from a quotient of at least 56 bits whose last bit records a remainder.
\<close>

definition finish :: "bool \<Rightarrow> nat \<Rightarrow> int \<Rightarrow> f64" where
  "finish s m e =
     (if m = 0 then F64 s 0 0
      else if 1024 < int (bit_length m) + e then F64_Inf s
      else case strip_zeros m e of (m', e') \<Rightarrow> F64 s m' e')"

definition round_f64 :: "bool \<Rightarrow> nat \<Rightarrow> int \<Rightarrow> f64" where
  "round_f64 s m e =
     (let q = max (int (bit_length m) + e - 53) (- 1074)
      in if q \<le> e then finish s m e
         else let d = nat (q - e);
                  t = m div 2 ^ d;
                  r = m mod 2 ^ d;
                  h = 2 ^ (d - 1)
              in finish s (if h < r \<or> (r = h \<and> odd t) then t + 1 else t) q)"

definition round_ratio :: "bool \<Rightarrow> nat \<Rightarrow> nat \<Rightarrow> f64" where
  "round_ratio s a b =
     (let sh = nat (56 + int (bit_length b) - int (bit_length a));
          n = a * 2 ^ sh
      in round_f64 s (2 * (n div b) + (if n mod b = 0 then 0 else 1)) (- int sh - 1))"

text \<open>The operator \<open>*\<close> on two numbers.\<close>

fun f64_mul :: "f64 \<Rightarrow> f64 \<Rightarrow> f64" where
  "f64_mul (F64 s m e) (F64 t n k) = round_f64 (s \<noteq> t) (m * n) (e + k)"
| "f64_mul (F64 s m e) (F64_Inf t) = (if m = 0 then F64_NaN else F64_Inf (s \<noteq> t))"
| "f64_mul (F64_Inf s) (F64 t n k) = (if n = 0 then F64_NaN else F64_Inf (s \<noteq> t))"
| "f64_mul (F64_Inf s) (F64_Inf t) = F64_Inf (s \<noteq> t)"
| "f64_mul F64_NaN y = F64_NaN"
| "f64_mul x F64_NaN = F64_NaN"

definition f64_positive :: "f64 \<Rightarrow> bool" where
  "f64_positive x =
     (case x of F64 s m e \<Rightarrow> \<not> s \<and> 0 < m | F64_Inf s \<Rightarrow> \<not> s | F64_NaN \<Rightarrow> False)"

definition f64_of_nat :: "nat \<Rightarrow> f64" where
  "f64_of_nat n = round_f64 False n 0"

text \<open>
  The number a plain decimal literal stands for: an optional sign, digits, and
  optionally a point followed by digits. Such a literal is what the datastore sends for
  a \<open>numeric\<close> column, and ToNumber reads it as the nearest number. Other strings are
  left to the runtime.
\<close>

definition digit_of :: "char \<Rightarrow> nat option" where
  "digit_of c = map_of (zip ''0123456789'' [0, 1, 2, 3, 4, 5, 6, 7, 8, 9]) c"

fun read_digits :: "string \<Rightarrow> nat \<Rightarrow> nat \<Rightarrow> nat \<times> nat \<times> string" where
  "read_digits [] v k = (v, k, [])"
| "read_digits (c # cs) v k =
     (case digit_of c of
        None \<Rightarrow> (v, k, c # cs)
      | Some d \<Rightarrow> read_digits cs (10 * v + d) (Suc k))"

definition read_sign :: "string \<Rightarrow> bool \<times> string" where
  "read_sign s =
     (case s of
        [] \<Rightarrow> (False, s)
      | c # cs \<Rightarrow>
          if c = CHR ''-'' then (True, cs)
          else if c = CHR ''+'' then (False, cs)
          else (False, s))"

definition decimal_literal :: "string \<Rightarrow> f64 option" where
  "decimal_literal s =
     (case read_sign s of
        (neg, u) \<Rightarrow>
          (case read_digits u 0 0 of
             (ip, k, rest) \<Rightarrow>
               if k = 0 then None
               else (case rest of
                       [] \<Rightarrow> Some (round_ratio neg ip 1)
                     | c # fs \<Rightarrow>
                         if c = CHR ''.''
                         then (case read_digits fs ip 0 of
                                 (a, j, rest') \<Rightarrow>
                                   if rest' = [] then Some (round_ratio neg a (10 ^ j))
                                   else None)
                         else None)))"

text \<open>The literal \<open>1.2\<close> of line 515.\<close>

definition f64_1_2 :: f64 where
  "f64_1_2 = F64 False 5404319552844595 (- 52)"

text \<open>
  A runtime has binary64 arithmetic when its multiplication, its literal, its
  comparison with zero and its test for NaN are those above and its ToNumber reads
  every plain decimal literal as the number it stands for.
\<close>

definition binary64_runtime :: "f64 runtime \<Rightarrow> bool" where
  "binary64_runtime rt \<longleftrightarrow>
     num_mul rt = f64_mul \<and> num_1_2 rt = f64_1_2 \<and>
     num_positive rt = f64_positive \<and> num_isNaN rt = (\<lambda>x. x = F64_NaN) \<and>
     (\<forall>s d. decimal_literal s = Some d \<longrightarrow> to_number rt (JStr s) = d)"

section \<open>A sample runtime and store\<close>

text \<open>
  One interpretation of the runtime, on which the handlers other than order creation
  are evaluated below; none of them computes with numbers. Numbers are rationals,
  \<open>parseFloat\<close> reads an unsigned decimal prefix, an address is accepted when it holds
  an at sign, the datastore compares a number column with a text parameter by reading
  the text as a number, and an issue is shown by its path.
\<close>

definition decimal :: "string \<Rightarrow> rat" where
  "decimal s =
     (case read_digits s 0 0 of
        (ip, _, rest) \<Rightarrow>
          (case rest of
             [] \<Rightarrow> of_nat ip
           | c # fs \<Rightarrow>
               if c = CHR ''.''
               then (case read_digits fs 0 0 of (fp, k, _) \<Rightarrow> of_nat ip + of_nat fp / 10 ^ k)
               else of_nat ip))"

definition sample_sql_eq :: "rat jsval \<Rightarrow> rat jsval \<Rightarrow> bool" where
  "sample_sql_eq c p =
     (case c of
        JNum x \<Rightarrow> (case p of JStr s \<Rightarrow> x = decimal s | _ \<Rightarrow> c = p)
      | _ \<Rightarrow> c = p)"

definition sample_rt :: "rat runtime" where
  "sample_rt =
     \<lparr>num_mul = (\<lambda>a b. a * b),
      num_1_2 = 12 / 10,
      num_positive = (\<lambda>x. 0 < x),
      num_isNaN = (\<lambda>x. False),
      to_number = (\<lambda>v. case v of JStr s \<Rightarrow> decimal s | _ \<Rightarrow> 0),
      parseFloat = decimal,
      email_regex = (\<lambda>s. CHR ''@'' \<in> set s),
      sql_eq = sample_sql_eq,
      zod_errors = (\<lambda>issues. JArr (map (\<lambda>i. JObj [(''path'', JArr (map JStr (issue_path i)))]) issues))\<rparr>"

definition widget :: "rat row" where
  "widget =
     [(''id'', JNum 1), (''name'', JStr ''Widget''), (''about'', JStr ''A widget''),
      (''price'', JNum 10)]"

definition gadget :: "rat row" where
  "gadget =
     [(''id'', JNum 2), (''name'', JStr ''Gadget''), (''about'', JStr ''A gadget''),
      (''price'', JNum (999 / 100))]"

definition small_widget :: "rat row" where
  "small_widget =
     [(''id'', JNum 3), (''name'', JStr ''Widget''), (''about'', JStr ''Small''),
      (''price'', JNum (999 / 100))]"

definition ada :: "rat row" where
  "ada =
     [(''id'', JNum 1), (''name'', JStr ''Ada''), (''email'', JStr ''ada@example.org''),
      (''password'', JStr ''$2b$10$N9qo8uLOickgx2ZMRZoMye'')]"

definition first_order :: "rat row" where
  "first_order =
     [(''id'', JNum 1), (''userid'', JNum 1), (''productid'', JNum 1),
      (''quantity'', JNum 2), (''total'', JNum 24),
      (''createdat'', JStr ''2024-01-01T00:00:00.000Z''),
      (''updatedat'', JStr ''2024-01-01T00:00:00.000Z'')]"

definition sample_store :: "rat store" where
  "sample_store =
     \<lparr>products = [widget, gadget, small_widget], users = [ada], orders = [first_order],
      orders_columns =
        [''id'', ''userid'', ''productid'', ''quantity'', ''total'', ''createdat'', ''updatedat'']\<rparr>"

definition sample_env :: "rat db_defaults" where
  "sample_env = \<lparr>next_id = JNum 4, now = JStr ''2024-02-02T00:00:00.000Z''\<rparr>"

definition order_body :: "rat jsval" where
  "order_body = JObj [(''userId'', JNum 1), (''productId'', JNum 1), (''quantity'', JNum 2)]"

definition user_body :: "rat jsval" where
  "user_body =
     JObj [(''name'', JStr ''Grace''), (''email'', JStr ''grace@example.org''),
           (''password'', JStr ''secret'')]"

definition product_body :: "rat jsval" where
  "product_body =
     JObj [(''name'', JStr ''Sprocket''), (''about'', JStr ''A sprocket''),
           (''price'', JNum (5 / 2))]"

section \<open>A runtime with binary64 arithmetic, and two stores\<close>

text \<open>
  The order handler is evaluated below on a runtime with binary64 arithmetic. Its
  ToNumber reads a plain decimal literal as the number it stands for and the empty
  string as zero; strings of another form (blanks, exponents, other radixes, names),
  arrays and objects are read as NaN here, and order creation meets none of them below;
  it never calls \<open>parseFloat\<close>, which reads a plain decimal literal here.
  The datastore compares an identifier with a bound number by equality. In the first
  store the price column holds numbers, in the second it holds decimal strings, as a
  \<open>numeric\<close> column does. The orders table of both was created with lower-case column
  names.
\<close>

definition node_to_number :: "f64 jsval \<Rightarrow> f64" where
  "node_to_number v =
     (case v of
        JNum n \<Rightarrow> n
      | JStr s \<Rightarrow>
          (case decimal_literal s of
             Some d \<Rightarrow> d
           | None \<Rightarrow> if s = [] then F64 False 0 0 else F64_NaN)
      | JNull \<Rightarrow> F64 False 0 0
      | JBool b \<Rightarrow> (if b then F64 False 1 0 else F64 False 0 0)
      | _ \<Rightarrow> F64_NaN)"

definition node_rt :: "f64 runtime" where
  "node_rt =
     \<lparr>num_mul = f64_mul,
      num_1_2 = f64_1_2,
      num_positive = f64_positive,
      num_isNaN = (\<lambda>x. x = F64_NaN),
      to_number = node_to_number,
      parseFloat = (\<lambda>s. case decimal_literal s of Some d \<Rightarrow> d | None \<Rightarrow> F64_NaN),
      email_regex = (\<lambda>s. CHR ''@'' \<in> set s),
      sql_eq = (\<lambda>c p. c = p),
      zod_errors = (\<lambda>issues. JArr (map (\<lambda>i. JObj [(''path'', JArr (map JStr (issue_path i)))]) issues))\<rparr>"

definition lower_case_columns :: "string list" where
  "lower_case_columns =
     [''id'', ''userid'', ''productid'', ''quantity'', ''total'', ''createdat'', ''updatedat'']"

definition float_store :: "f64 store" where
  "float_store =
     \<lparr>products =
        [[(''id'', JNum (f64_of_nat 1)), (''name'', JStr ''Gadget''),
          (''about'', JStr ''A gadget''), (''price'', JNum (F64 False 5623870034678907 (- 49)))],
         [(''id'', JNum (f64_of_nat 2)), (''name'', JStr ''Widget''),
          (''about'', JStr ''A widget''), (''price'', JNum (f64_of_nat 10))]],
      users = [], orders = [], orders_columns = lower_case_columns\<rparr>"

definition numeric_store :: "f64 store" where
  "numeric_store =
     \<lparr>products =
        [[(''id'', JNum (f64_of_nat 1)), (''name'', JStr ''Gadget''),
          (''about'', JStr ''A gadget''), (''price'', JStr ''9.99'')],
         [(''id'', JNum (f64_of_nat 2)), (''name'', JStr ''Widget''),
          (''about'', JStr ''A widget''), (''price'', JStr ''10.00'')]],
      users = [], orders = [], orders_columns = lower_case_columns\<rparr>"

definition node_env :: "f64 db_defaults" where
  "node_env = \<lparr>next_id = JNum (f64_of_nat 1), now = JStr ''2024-02-02T00:00:00.000Z''\<rparr>"

text \<open>An order of \<open>quantity\<close> pieces of the product \<open>productId\<close> by the user 1.\<close>

definition order_of :: "nat \<Rightarrow> nat \<Rightarrow> f64 row" where
  "order_of productId quantity =
     [(''userId'', JNum (f64_of_nat 1)), (''productId'', JNum (f64_of_nat productId)),
      (''quantity'', JNum (f64_of_nat quantity))]"

text \<open>The row that order makes once inserted, with its total.\<close>

definition order_row :: "nat \<Rightarrow> nat \<Rightarrow> f64 \<Rightarrow> f64 row" where
  "order_row productId quantity amount =
     [(''id'', JNum (f64_of_nat 1)), (''userid'', JNum (f64_of_nat 1)),
      (''productid'', JNum (f64_of_nat productId)),
      (''quantity'', JNum (f64_of_nat quantity)), (''total'', JNum amount),
      (''createdat'', JStr ''2024-02-02T00:00:00.000Z''),
      (''updatedat'', JStr ''2024-02-02T00:00:00.000Z'')]"

section \<open>The filtered read as the specification words it\<close>

text \<open>
  The specification's reading of the product filters: every filter the request
  supplies, whatever its value, is an equality predicate on its column.
\<close>

definition spec_predicates ::
  "'n runtime \<Rightarrow> (string \<Rightarrow> string option) \<Rightarrow> (string \<times> 'n jsval) list" where
  "spec_predicates rt query =
     (case query ''name'' of None \<Rightarrow> [] | Some s \<Rightarrow> [(''name'', JStr s)]) @
     (case query ''about'' of None \<Rightarrow> [] | Some s \<Rightarrow> [(''about'', JStr s)]) @
     (case query ''price'' of None \<Rightarrow> [] | Some s \<Rightarrow> [(''price'', JNum (parseFloat rt s))])"

section \<open>Facts about the building blocks\<close>

lemmas schema_defs = CreateOrderSchema_def CreateUserSchema_def CreateProductSchema_def
  UserSchema_def ProductSchema_def UpdateUserSchema_def UpdateOrderSchema_def getUsers_def omit_def

lemmas sample_defs = sample_rt_def sample_store_def sample_env_def widget_def gadget_def
  small_widget_def ada_def first_order_def order_body_def user_body_def product_body_def
  sample_sql_eq_def decimal_def digit_of_def

subsection \<open>Names, rows and numbers\<close>

lemma read_bcrypt:
  "read_identifier [''req'', ''res'', ''result''] ''bcrypt'' = Some (ReferenceError ''bcrypt'')"
  by (simp add: read_identifier_def module_bindings_def runtime_globals_def)

lemma read_i:
  "read_identifier [''req'', ''res'', ''result''] ''i'' = Some (ReferenceError ''i'')"
  by (simp add: read_identifier_def module_bindings_def runtime_globals_def)

lemma first_row_filter: "first_row (filter P xs) = find P xs"
  by (induction xs) (simp_all add: first_row_def)

lemma first_row_map: "first_row (map f xs) = map_option f (first_row xs)"
  by (cases xs) (simp_all add: first_row_def)

lemma as_number_num: "as_number rt (JNum n) = n"
  by (simp add: as_number_def)

lemma find_None_iff_all: "find P xs = None \<longleftrightarrow> (\<forall>x\<in>set xs. \<not> P x)"
  by (induction xs) simp_all

lemma find_after_delete: "find P (filter (\<lambda>r. \<not> P r) xs) = None"
  by (induction xs) simp_all

lemma decimal_9_99: "decimal ''9.99'' = 999 / 100"
  by (simp add: decimal_def digit_of_def)

subsection \<open>What a body that passes validation looks like\<close>

lemma parse_order:
  assumes "safeParse rt CreateOrderSchema (JObj inp) = Inr data"
  shows "\<exists>u p q. field inp ''userId'' = JNum u \<and> field inp ''productId'' = JNum p \<and>
           field inp ''quantity'' = JNum q \<and> num_positive rt q \<and>
           data = [(''userId'', JNum u), (''productId'', JNum p), (''quantity'', JNum q)]"
  using assms
  by (auto simp: safeParse_def CreateOrderSchema_def field_def
           split: option.splits if_splits jsval.splits)

lemma parse_product:
  assumes "safeParse rt CreateProductSchema (JObj inp) = Inr data"
  shows "\<exists>a b p. field inp ''name'' = JStr a \<and> field inp ''about'' = JStr b \<and>
           field inp ''price'' = JNum p \<and> num_positive rt p \<and>
           data = [(''name'', JStr a), (''about'', JStr b), (''price'', JNum p)]"
  using assms
  by (auto simp: safeParse_def CreateProductSchema_def ProductSchema_def omit_def field_def
           split: option.splits if_splits jsval.splits)

lemma parse_user:
  assumes "safeParse rt CreateUserSchema (JObj inp) = Inr data"
  shows "\<exists>a b p. field inp ''name'' = JStr a \<and> field inp ''email'' = JStr b \<and>
           field inp ''password'' = JStr p \<and>
           data = [(''name'', JStr a), (''email'', JStr b), (''password'', JStr p)]"
  using assms
  by (auto simp: safeParse_def CreateUserSchema_def UserSchema_def omit_def field_def
           split: option.splits if_splits jsval.splits)

lemma parse_empty_update:
  "safeParse rt UpdateUserSchema (JObj []) = Inr []"
  "safeParse rt UpdateOrderSchema (JObj []) = Inr []"
  by (simp_all add: safeParse_def UpdateUserSchema_def UpdateOrderSchema_def)

text \<open>The mask \<open>{password: false}\<close> omits nothing.\<close>

lemma getUsers_keeps_password: "getUsers = UserSchema"
  by (simp add: getUsers_def omit_def UserSchema_def)

subsection \<open>Statements that match no row\<close>

lemma update_none:
  assumes "find (where_id rt p) tbl = None"
  shows "update_by_id rt tbl assigns p = ([], tbl)"
proof -
  from assms have "\<forall>r\<in>set tbl. \<not> where_id rt p r"
    by (simp add: find_None_iff_all)
  then have "filter (where_id rt p) tbl = []"
    and "map (\<lambda>r. if where_id rt p r then set_columns assigns r else r) tbl = tbl"
    by (simp_all add: map_idI)
  then show ?thesis
    by (simp add: update_by_id_def)
qed

lemma delete_none:
  assumes "find (where_id rt p) tbl = None"
  shows "delete_by_id rt tbl p = ([], tbl)"
proof -
  from assms have "\<forall>r\<in>set tbl. \<not> where_id rt p r"
    by (simp add: find_None_iff_all)
  then show ?thesis
    by (simp add: delete_by_id_def)
qed

subsection \<open>Conditions of the filtered read\<close>

lemma push_absent:
  "q = None \<or> q = Some [] \<Longrightarrow> push_condition col q conv cv = cv"
  by (auto simp: push_condition_def split: prod.splits)

lemma push_present:
  "s \<noteq> [] \<Longrightarrow>
   push_condition col (Some s) conv (conditions, vals) =
     (conditions @ [(col, length conditions + 1)], vals @ [conv s])"
  by (simp add: push_condition_def)

subsection \<open>Evaluating binary64 numbers\<close>

declare bit_length.simps [simp del] strip_zeros.simps [simp del]

lemma bit_length_numeral:
  "bit_length 0 = 0"
  "bit_length (Suc 0) = Suc 0"
  "bit_length (numeral (Num.Bit0 k)) = Suc (bit_length (numeral k))"
  "bit_length (numeral (Num.Bit1 k)) = Suc (bit_length (numeral k))"
  by (simp_all add: bit_length.simps [of 0] bit_length.simps [of "Suc 0"]
        bit_length.simps [of "numeral (Num.Bit0 k)"] bit_length.simps [of "numeral (Num.Bit1 k)"])

lemma strip_zeros_numeral:
  "strip_zeros 0 e = (0, e)"
  "strip_zeros (Suc 0) e = (Suc 0, e)"
  "strip_zeros (numeral (Num.Bit1 k)) e = (numeral (Num.Bit1 k), e)"
  "strip_zeros (numeral (Num.Bit0 k)) e = strip_zeros (numeral k) (e + 1)"
  by (simp_all add: strip_zeros.simps [of 0] strip_zeros.simps [of "Suc 0"]
        strip_zeros.simps [of "numeral (Num.Bit0 k)"] strip_zeros.simps [of "numeral (Num.Bit1 k)"])

lemmas f64_eval = bit_length_numeral strip_zeros_numeral finish_def round_f64_def
  round_ratio_def f64_of_nat_def Let_def

lemmas literal_eval = decimal_literal_def read_sign_def digit_of_def f64_eval

text \<open>The literal 1.2 is the number nearest to twelve tenths.\<close>

lemma f64_1_2_literal: "decimal_literal ''1.2'' = Some f64_1_2"
  by (simp add: literal_eval f64_1_2_def)

lemma decimal_literal_10_00: "decimal_literal ''10.00'' = Some (f64_of_nat 10)"
  by (simp add: literal_eval)

lemma decimal_literal_9_99: "decimal_literal ''9.99'' = Some (F64 False 5623870034678907 (- 49))"
  by (simp add: literal_eval)

lemma ten_times_two: "f64_mul (f64_mul (f64_of_nat 10) (f64_of_nat 2)) f64_1_2 = f64_of_nat 24"
  by (simp add: f64_eval f64_1_2_def)

lemma nine_99_times_seven:
  "f64_mul (f64_mul (F64 False 5623870034678907 (- 49)) (f64_of_nat 7)) f64_1_2 =
     F64 False 5905063536412853 (- 46)"
  by (simp add: f64_eval f64_1_2_def)

lemma f64_of_small:
  "f64_of_nat (Suc 0) = F64 False (Suc 0) 0"
  "f64_of_nat 2 = F64 False (Suc 0) 1"
  "f64_of_nat 7 = F64 False 7 0"
  "f64_of_nat 10 = F64 False 5 1"
  "f64_of_nat 24 = F64 False 3 3"
  by (simp_all add: f64_eval)

lemma node_rt_binary64: "binary64_runtime node_rt"
  by (simp add: binary64_runtime_def node_rt_def node_to_number_def)

subsection \<open>Columns of a statement\<close>

lemma order_columns_folded:
  "fold_identifier ''userId'' = ''userid''"
  "fold_identifier ''productId'' = ''productid''"
  "fold_identifier ''quantity'' = ''quantity''"
  "fold_identifier ''total'' = ''total''"
  "fold_identifier ''createdAt'' = ''createdat''"
  "fold_identifier ''updatedAt'' = ''updatedat''"
  by (simp_all add: fold_identifier_def)

lemma check_columns_accepts:
  "set cols \<subseteq> set table_columns \<Longrightarrow> check_columns table_columns tbl cols = None"
  by (simp add: check_columns_def subset_iff filter_empty_conv split: list.splits)

lemma check_columns_refuses:
  assumes "\<not> set cols \<subseteq> set table_columns"
  shows "\<exists>c. check_columns table_columns tbl cols = Some (PostgresError (no_such_column c tbl))"
proof (cases "filter (\<lambda>c. c \<notin> set table_columns) cols")
  case Nil
  with assms show ?thesis
    by (auto simp: filter_empty_conv)
next
  case (Cons c rest)
  then have "check_columns table_columns tbl cols = Some (PostgresError (no_such_column c tbl))"
    by (simp add: check_columns_def)
  then show ?thesis ..
qed

subsection \<open>The two ends of an order creation\<close>

lemma post_orders_inserts:
  assumes "safeParse rt CreateOrderSchema (JObj inp) = Inr data"
      and "find (where_id rt (field inp ''productId'')) (products st) = Some product"
      and "field inp ''quantity'' = JNum q"
      and "check_columns (orders_columns st) ''orders''
             [''userid'', ''productid'', ''quantity'', ''total'', ''createdat'', ''updatedat''] = None"
  shows "post_orders rt env (JObj inp) st =
           (Response 201
              (JObj [(''id'', next_id env), (''userid'', field inp ''userId''),
                     (''productid'', field inp ''productId''), (''quantity'', JNum q),
                     (''total'',
                      JNum (num_mul rt (num_mul rt (as_number rt (column product ''price'')) q)
                              (num_1_2 rt))),
                     (''createdat'', now env), (''updatedat'', now env)]),
            st\<lparr>orders := orders st @
               [[(''id'', next_id env), (''userid'', field inp ''userId''),
                 (''productid'', field inp ''productId''), (''quantity'', JNum q),
                 (''total'',
                  JNum (num_mul rt (num_mul rt (as_number rt (column product ''price'')) q)
                          (num_1_2 rt))),
                 (''createdat'', now env), (''updatedat'', now env)]]\<rparr>)"
proof -
  from parse_order [OF assms(1)] assms(3) obtain u p where
    f: "field inp ''userId'' = JNum u" "field inp ''productId'' = JNum p" and
    d: "data = [(''userId'', JNum u), (''productId'', JNum p), (''quantity'', JNum q)]"
    by auto
  have sel: "first_row (select_price_by_id rt (products st) (JNum p)) =
               Some [(''price'', column product ''price'')]"
    using assms(2) f by (simp add: select_price_by_id_def first_row_map first_row_filter)
  have fd: "field data ''userId'' = JNum u" "field data ''productId'' = JNum p"
    "field data ''quantity'' = JNum q"
    by (simp_all add: d field_def)
  show ?thesis
    using assms(1) assms(4) sel fd f
    by (simp add: post_orders_def js_times_def insert_returning_def first_row_def json_of_def
          as_number_num Let_def order_columns_folded
          field_def [of "[(''price'', column product ''price'')]"])
qed

lemma post_orders_refused:
  assumes "safeParse rt CreateOrderSchema (JObj inp) = Inr data"
      and "find (where_id rt (field inp ''productId'')) (products st) = Some product"
      and "check_columns (orders_columns st) ''orders''
             [''userid'', ''productid'', ''quantity'', ''total'', ''createdat'', ''updatedat''] =
           Some (PostgresError text)"
  shows "post_orders rt env (JObj inp) st =
           (Response 500
              (JObj [(''message'', JStr ''Failed to create order''), (''error'', JStr text)]),
            st)"
proof -
  from parse_order [OF assms(1)] obtain u p q where
    f: "field inp ''productId'' = JNum p" and
    d: "data = [(''userId'', JNum u), (''productId'', JNum p), (''quantity'', JNum q)]"
    by blast
  have sel: "first_row (select_price_by_id rt (products st) (JNum p)) =
               Some [(''price'', column product ''price'')]"
    using assms(2) f by (simp add: select_price_by_id_def first_row_map first_row_filter)
  have fd: "field data ''productId'' = JNum p"
    by (simp add: d field_def)
  show ?thesis
    using assms(1) assms(3) sel fd
    by (simp add: post_orders_def Let_def order_columns_folded error_message_def)
qed

section \<open>Reading and deleting users and orders\<close>

text \<open>
  The user and order handlers test the row itself: reading answers 404 when the
  identifier matches no row and 200 with the first matching row otherwise; deleting
  answers 200 with the row as it was and removes it, so a second delete answers 404.
\<close>

lemma get_users_id_reads:
  "get_users_id rt uid st =
     (case find (where_id rt (JStr uid)) (users st) of
        None \<Rightarrow> (Response 404 (message ''User not found''), st)
      | Some user \<Rightarrow> (Response 200 (JObj user), st))"
  by (simp add: get_users_id_def select_by_id_def first_row_filter json_of_def
        split: option.splits)

lemma get_orders_id_reads:
  "get_orders_id rt oid st =
     (case find (where_id rt (JStr oid)) (orders st) of
        None \<Rightarrow> (Response 404 (message ''Order not found''), st)
      | Some order \<Rightarrow> (Response 200 (JObj order), st))"
  by (simp add: get_orders_id_def select_by_id_def first_row_filter json_of_def
        split: option.splits)

lemma delete_users_id_deletes:
  "delete_users_id rt uid st =
     (case find (where_id rt (JStr uid)) (users st) of
        None \<Rightarrow> (Response 404 (message ''User not found''), st)
      | Some user \<Rightarrow>
          (Response 200 (JObj user),
           st\<lparr>users := filter (\<lambda>r. \<not> where_id rt (JStr uid) r) (users st)\<rparr>))"
proof (cases "find (where_id rt (JStr uid)) (users st)")
  case None
  then show ?thesis
    by (simp add: delete_users_id_def delete_none first_row_def)
next
  case (Some user)
  then show ?thesis
    by (simp add: delete_users_id_def delete_by_id_def first_row_filter json_of_def)
qed

lemma delete_users_id_twice:
  "fst (delete_users_id rt uid (snd (delete_users_id rt uid st))) =
     Response 404 (message ''User not found'')"
  by (simp add: delete_users_id_deletes find_after_delete split: option.splits)

lemma delete_orders_id_deletes:
  "delete_orders_id rt oid st =
     (case find (where_id rt (JStr oid)) (orders st) of
        None \<Rightarrow> (Response 404 (message ''Order not found''), st)
      | Some order \<Rightarrow>
          (Response 200 (JObj order),
           st\<lparr>orders := filter (\<lambda>r. \<not> where_id rt (JStr oid) r) (orders st)\<rparr>))"
proof (cases "find (where_id rt (JStr oid)) (orders st)")
  case None
  then show ?thesis
    by (simp add: delete_orders_id_def delete_none first_row_def)
next
  case (Some order)
  then show ?thesis
    by (simp add: delete_orders_id_def delete_by_id_def first_row_filter json_of_def)
qed

lemma delete_orders_id_twice:
  "fst (delete_orders_id rt oid (snd (delete_orders_id rt oid st))) =
     Response 404 (message ''Order not found'')"
  by (simp add: delete_orders_id_deletes find_after_delete split: option.splits)

text \<open>
  The partial update of a user stops at the statement \<open>i;\<close> whatever the body is, and
  the update of an order with all three fields, on a table that has the columns as
  the handler writes them, answers 200 also when no row matches.
\<close>

lemma patch_users_id_throws:
  "patch_users_id rt uid body st = (Uncaught (ReferenceError ''i''), st)"
  by (simp add: patch_users_id_def read_i)

lemma patch_orders_id_unknown_id:
  assumes "safeParse rt UpdateOrderSchema body = Inr data"
      and "sql_helper data [''userId'', ''productId'', ''quantity''] = Inr assigns"
      and "set (map fst assigns) \<subseteq> set (orders_columns st)"
      and "find (where_id rt (JStr oid)) (orders st) = None"
  shows "patch_orders_id rt oid body st = (Response 200 JUndefined, st)"
  using assms check_columns_accepts [OF assms(3), of "''orders''"]
  by (simp add: patch_orders_id_def update_none first_row_def json_of_def)

section \<open>Order creation\<close>

text \<open>
  Claim C1, as amended. Take a runtime with binary64 arithmetic, a body that passes
  validation and a lookup of its \<open>productId\<close> that finds a product. When the orders
  table has the lower-case columns the INSERT names, the handler answers 201 with the
  inserted row, the store gains exactly that row, and the row's total is the product
  \<open>(price * quantity) * 1.2\<close> in binary64, rounded to the nearest number after each
  multiplication, where a price held as a decimal string is first read as the nearest
  number. When the table lacks one of those columns the handler answers 500 and the
  store is unchanged.
\<close>

theorem post_orders_total:
  assumes "binary64_runtime rt"
      and "safeParse rt CreateOrderSchema (JObj inp) = Inr data"
      and "find (where_id rt (field inp ''productId'')) (products st) = Some product"
  shows "\<exists>q. field inp ''quantity'' = JNum q \<and> f64_positive q \<and>
           (set [''userid'', ''productid'', ''quantity'', ''total'', ''createdat'', ''updatedat'']
              \<subseteq> set (orders_columns st) \<longrightarrow>
            (\<exists>row. post_orders rt env (JObj inp) st =
                      (Response 201 (JObj row), st\<lparr>orders := orders st @ [row]\<rparr>) \<and>
                    map fst row =
                      [''id'', ''userid'', ''productid'', ''quantity'', ''total'', ''createdat'',
                       ''updatedat''] \<and>
                    (\<forall>p. column product ''price'' = JNum p \<longrightarrow>
                           field row ''total'' = JNum (f64_mul (f64_mul p q) f64_1_2)) \<and>
                    (\<forall>s d. column product ''price'' = JStr s \<and> decimal_literal s = Some d \<longrightarrow>
                           field row ''total'' = JNum (f64_mul (f64_mul d q) f64_1_2)))) \<and>
           (\<not> set [''userid'', ''productid'', ''quantity'', ''total'', ''createdat'', ''updatedat'']
                \<subseteq> set (orders_columns st) \<longrightarrow>
            (\<exists>c. post_orders rt env (JObj inp) st =
                    (Response 500
                       (JObj [(''message'', JStr ''Failed to create order''),
                              (''error'', JStr (no_such_column c ''orders''))]), st)))"
proof -
  let ?cols = "[''userid'', ''productid'', ''quantity'', ''total'', ''createdat'', ''updatedat'']"
  from assms(1) have rt:
    "num_mul rt = f64_mul" "num_1_2 rt = f64_1_2" "num_positive rt = f64_positive"
    and str: "\<And>s d. decimal_literal s = Some d \<Longrightarrow> to_number rt (JStr s) = d"
    by (simp_all add: binary64_runtime_def)
  from parse_order [OF assms(2)] obtain q where
    q: "field inp ''quantity'' = JNum q" and pos: "num_positive rt q"
    by blast
  let ?total = "JNum (f64_mul (f64_mul (as_number rt (column product ''price'')) q) f64_1_2)"
  let ?row = "[(''id'', next_id env), (''userid'', field inp ''userId''),
               (''productid'', field inp ''productId''), (''quantity'', JNum q),
               (''total'', ?total), (''createdat'', now env), (''updatedat'', now env)]"
  have number: "field ?row ''total'' = JNum (f64_mul (f64_mul x q) f64_1_2)"
    if "column product ''price'' = JNum x" for x
    using that by (simp add: field_def as_number_num)
  have literal: "field ?row ''total'' = JNum (f64_mul (f64_mul x q) f64_1_2)"
    if "column product ''price'' = JStr s" "decimal_literal s = Some x" for s x
    using that str [OF that(2)] by (simp add: field_def as_number_def)
  show ?thesis
  proof (intro exI [of _ q] conjI impI)
    show "field inp ''quantity'' = JNum q"
      by (rule q)
    show "f64_positive q"
      using pos by (simp add: rt)
    show "\<exists>c. post_orders rt env (JObj inp) st =
            (Response 500
               (JObj [(''message'', JStr ''Failed to create order''),
                      (''error'', JStr (no_such_column c ''orders''))]), st)"
      if "\<not> set ?cols \<subseteq> set (orders_columns st)"
    proof -
      have "\<exists>c. check_columns (orders_columns st) ''orders'' ?cols =
                 Some (PostgresError (no_such_column c ''orders''))"
        by (rule check_columns_refuses [OF that])
      then show ?thesis
        by (elim exE) (rule exI, rule post_orders_refused [OF assms(2) assms(3)])
    qed
    show "\<exists>row. post_orders rt env (JObj inp) st =
                  (Response 201 (JObj row), st\<lparr>orders := orders st @ [row]\<rparr>) \<and>
                map fst row =
                  [''id'', ''userid'', ''productid'', ''quantity'', ''total'', ''createdat'',
                   ''updatedat''] \<and>
                (\<forall>p. column product ''price'' = JNum p \<longrightarrow>
                       field row ''total'' = JNum (f64_mul (f64_mul p q) f64_1_2)) \<and>
                (\<forall>s d. column product ''price'' = JStr s \<and> decimal_literal s = Some d \<longrightarrow>
                       field row ''total'' = JNum (f64_mul (f64_mul d q) f64_1_2))"
      if "set ?cols \<subseteq> set (orders_columns st)"
    proof -
      have inserted: "post_orders rt env (JObj inp) st =
              (Response 201 (JObj ?row), st\<lparr>orders := orders st @ [?row]\<rparr>)"
        using post_orders_inserts [OF assms(2) assms(3) q check_columns_accepts [OF that], of env]
        by (simp add: rt)
      show ?thesis
      proof (intro exI [of _ ?row] conjI allI impI)
        show "post_orders rt env (JObj inp) st =
                (Response 201 (JObj ?row), st\<lparr>orders := orders st @ [?row]\<rparr>)"
          by (rule inserted)
        show "map fst ?row =
                [''id'', ''userid'', ''productid'', ''quantity'', ''total'', ''createdat'',
                 ''updatedat'']"
          by simp
        show "field ?row ''total'' = JNum (f64_mul (f64_mul p q) f64_1_2)"
          if "column product ''price'' = JNum p" for p
          by (rule number [OF that])
        show "field ?row ''total'' = JNum (f64_mul (f64_mul d q) f64_1_2)"
          if "column product ''price'' = JStr s \<and> decimal_literal s = Some d" for s d
          by (rule literal [OF conjunct1 [OF that] conjunct2 [OF that]])
      qed
    qed
  qed
qed

text \<open>
  On the two stores, with the runtime of binary64 arithmetic: two pieces of the second
  product, priced 10 as a number in one store and as the string 10.00 in the other,
  make a total of 24.
\<close>

theorem post_orders_total_witness:
  "binary64_runtime node_rt \<and>
   safeParse node_rt CreateOrderSchema (JObj (order_of 2 2)) = Inr (order_of 2 2) \<and>
   (\<exists>row. field row ''total'' = JNum (f64_of_nat 24) \<and>
      post_orders node_rt node_env (JObj (order_of 2 2)) float_store =
        (Response 201 (JObj row), float_store\<lparr>orders := orders float_store @ [row]\<rparr>)) \<and>
   (\<exists>row. field row ''total'' = JNum (f64_of_nat 24) \<and>
      post_orders node_rt node_env (JObj (order_of 2 2)) numeric_store =
        (Response 201 (JObj row), numeric_store\<lparr>orders := orders numeric_store @ [row]\<rparr>))"
proof -
  let ?cols = "[''userid'', ''productid'', ''quantity'', ''total'', ''createdat'', ''updatedat'']"
  have p: "safeParse node_rt CreateOrderSchema (JObj (order_of 2 2)) = Inr (order_of 2 2)"
    by (simp add: safeParse_def CreateOrderSchema_def order_of_def node_rt_def
          f64_of_small f64_positive_def)
  have q: "field (order_of 2 2) ''quantity'' = JNum (f64_of_nat 2)"
    by (simp add: order_of_def field_def)
  have cf: "set ?cols \<subseteq> set (orders_columns float_store)"
    and cn: "set ?cols \<subseteq> set (orders_columns numeric_store)"
    by (simp_all add: float_store_def numeric_store_def lower_case_columns_def)
  have ff: "find (where_id node_rt (field (order_of 2 2) ''productId'')) (products float_store) =
      Some [(''id'', JNum (f64_of_nat 2)), (''name'', JStr ''Widget''),
            (''about'', JStr ''A widget''), (''price'', JNum (f64_of_nat 10))]"
    by (simp add: where_id_def column_def field_def order_of_def float_store_def node_rt_def
          f64_of_small)
  have fn: "find (where_id node_rt (field (order_of 2 2) ''productId'')) (products numeric_store) =
      Some [(''id'', JNum (f64_of_nat 2)), (''name'', JStr ''Widget''),
            (''about'', JStr ''A widget''), (''price'', JStr ''10.00'')]"
    by (simp add: where_id_def column_def field_def order_of_def numeric_store_def node_rt_def
          f64_of_small)
  from post_orders_total [OF node_rt_binary64 p ff, of node_env] q cf obtain row where
    "post_orders node_rt node_env (JObj (order_of 2 2)) float_store =
          (Response 201 (JObj row), float_store\<lparr>orders := orders float_store @ [row]\<rparr>)"
    and "field row ''total'' = JNum (f64_mul (f64_mul (f64_of_nat 10) (f64_of_nat 2)) f64_1_2)"
    by (auto simp: column_def)
  then have float: "\<exists>row. field row ''total'' = JNum (f64_of_nat 24) \<and>
      post_orders node_rt node_env (JObj (order_of 2 2)) float_store =
        (Response 201 (JObj row), float_store\<lparr>orders := orders float_store @ [row]\<rparr>)"
    by (auto simp: ten_times_two)
  from post_orders_total [OF node_rt_binary64 p fn, of node_env] q cn obtain row where
    "post_orders node_rt node_env (JObj (order_of 2 2)) numeric_store =
          (Response 201 (JObj row), numeric_store\<lparr>orders := orders numeric_store @ [row]\<rparr>)"
    and "field row ''total'' = JNum (f64_mul (f64_mul (f64_of_nat 10) (f64_of_nat 2)) f64_1_2)"
    by (auto simp: column_def decimal_literal_10_00)
  then have numeric: "\<exists>row. field row ''total'' = JNum (f64_of_nat 24) \<and>
      post_orders node_rt node_env (JObj (order_of 2 2)) numeric_store =
        (Response 201 (JObj row), numeric_store\<lparr>orders := orders numeric_store @ [row]\<rparr>)"
    by (auto simp: ten_times_two)
  from float numeric p node_rt_binary64 show ?thesis
    by blast
qed

text \<open>
  The claim as worded fails twice. Seven pieces of the first product, priced 9.99, make
  the total 5905063536412853 / 2 ^ 46, which JavaScript prints as 83.91600000000001:
  it is not the product 83.916 of the price, the quantity and 1.2, nor the number
  nearest to that product. And on an orders table created with the capitalised column
  names the handler answers 500 to a body that passes validation for a product that
  exists, and stores nothing.
\<close>

theorem post_orders_total_counterexample:
  "post_orders node_rt node_env (JObj (order_of 1 7)) numeric_store =
     (Response 201 (JObj (order_row 1 7 (F64 False 5905063536412853 (- 46)))),
      numeric_store\<lparr>orders := [order_row 1 7 (F64 False 5905063536412853 (- 46))]\<rparr>) \<and>
   f64_value (F64 False 5905063536412853 (- 46)) = Some (5905063536412853 / 70368744177664) \<and>
   (5905063536412853 / 70368744177664 :: rat) \<noteq> 999 / 100 * 7 * (12 / 10) \<and>
   decimal_literal ''83.916'' = Some (F64 False 1476265884103213 (- 44)) \<and>
   post_orders node_rt node_env (JObj (order_of 2 2))
     (numeric_store\<lparr>orders_columns :=
        [''id'', ''userId'', ''productId'', ''quantity'', ''total'', ''createdAt'', ''updatedAt'']\<rparr>) =
     (Response 500
        (JObj [(''message'', JStr ''Failed to create order''),
               (''error'', JStr (no_such_column ''userid'' ''orders''))]),
      numeric_store\<lparr>orders_columns :=
        [''id'', ''userId'', ''productId'', ''quantity'', ''total'', ''createdAt'', ''updatedAt'']\<rparr>)"
proof -
  have numbers: "f64_of_nat (Suc 0) \<noteq> F64_NaN" "f64_of_nat 7 \<noteq> F64_NaN"
    "f64_positive (f64_of_nat 7)"
    by (simp_all add: f64_of_small f64_positive_def)
  have inexact: "post_orders node_rt node_env (JObj (order_of 1 7)) numeric_store =
     (Response 201 (JObj (order_row 1 7 (F64 False 5905063536412853 (- 46)))),
      numeric_store\<lparr>orders := [order_row 1 7 (F64 False 5905063536412853 (- 46))]\<rparr>)"
    by (simp add: post_orders_def safeParse_def CreateOrderSchema_def
          select_price_by_id_def where_id_def first_row_def column_def field_def
          order_of_def order_row_def js_times_def as_number_def check_columns_def
          order_columns_folded insert_returning_def json_of_def node_rt_def node_env_def
          node_to_number_def decimal_literal_9_99 nine_99_times_seven numbers
          numeric_store_def lower_case_columns_def Let_def)
  have v: "f64_value (F64 False 5905063536412853 (- 46)) = Some (5905063536412853 / 70368744177664)"
    by (simp add: f64_value_def)
  have ne: "(5905063536412853 / 70368744177664 :: rat) \<noteq> 999 / 100 * 7 * (12 / 10)"
    by simp
  have near: "decimal_literal ''83.916'' = Some (F64 False 1476265884103213 (- 44))"
    by (simp add: literal_eval)
  have refused: "post_orders node_rt node_env (JObj (order_of 2 2))
     (numeric_store\<lparr>orders_columns :=
        [''id'', ''userId'', ''productId'', ''quantity'', ''total'', ''createdAt'', ''updatedAt'']\<rparr>) =
     (Response 500
        (JObj [(''message'', JStr ''Failed to create order''),
               (''error'', JStr (no_such_column ''userid'' ''orders''))]),
      numeric_store\<lparr>orders_columns :=
        [''id'', ''userId'', ''productId'', ''quantity'', ''total'', ''createdAt'', ''updatedAt'']\<rparr>)"
    by (simp add: post_orders_def safeParse_def CreateOrderSchema_def
          select_price_by_id_def where_id_def first_row_def column_def field_def
          order_of_def check_columns_def order_columns_folded error_message_def
          node_rt_def f64_positive_def f64_of_small numeric_store_def Let_def)
  from inexact v ne near refused show ?thesis
    by simp
qed

text \<open>
  Claim C2. When the body of an order-creation request passes validation and the lookup
  of its \<open>productId\<close> finds no product, the handler answers 404 with the message
  "Product not found" and the store is unchanged.
\<close>

theorem post_orders_unknown_product:
  assumes "safeParse rt CreateOrderSchema (JObj inp) = Inr data"
      and "find (where_id rt (field inp ''productId'')) (products st) = None"
  shows "post_orders rt env (JObj inp) st =
           (Response 404 (JObj [(''message'', JStr ''Product not found'')]), st)"
proof -
  from parse_order [OF assms(1)] obtain u p q where
    f: "field inp ''productId'' = JNum p" and
    d: "data = [(''userId'', JNum u), (''productId'', JNum p), (''quantity'', JNum q)]"
    by blast
  have "first_row (select_price_by_id rt (products st) (JNum p)) = None"
    using assms(2) f
    by (simp add: select_price_by_id_def first_row_map first_row_filter)
  moreover have "field data ''productId'' = JNum p"
    by (simp add: d field_def)
  ultimately show ?thesis
    using assms(1) by (simp add: post_orders_def message_def)
qed

text \<open>On the sample store no product has the identifier 7.\<close>

theorem post_orders_unknown_product_witness:
  "safeParse sample_rt CreateOrderSchema
     (JObj [(''userId'', JNum 1), (''productId'', JNum 7), (''quantity'', JNum 2)]) =
     Inr [(''userId'', JNum 1), (''productId'', JNum 7), (''quantity'', JNum 2)] \<and>
   find (where_id sample_rt (JNum 7)) (products sample_store) = None \<and>
   post_orders sample_rt sample_env
     (JObj [(''userId'', JNum 1), (''productId'', JNum 7), (''quantity'', JNum 2)]) sample_store =
     (Response 404 (JObj [(''message'', JStr ''Product not found'')]), sample_store)"
proof -
  let ?inp = "[(''userId'', JNum 1), (''productId'', JNum 7), (''quantity'', JNum (2::rat))]"
  have p: "safeParse sample_rt CreateOrderSchema (JObj ?inp) = Inr ?inp"
    by (simp add: safeParse_def schema_defs sample_defs)
  have f: "find (where_id sample_rt (field ?inp ''productId'')) (products sample_store) = None"
    by (simp add: where_id_def column_def field_def sample_defs)
  from post_orders_unknown_product [OF p f, of sample_env] p f show ?thesis
    by (simp add: field_def)
qed

section \<open>Partial updates with no field\<close>

text \<open>
  Claim C3, on the body \<open>{}\<close>. It passes both update schemas with an empty field set.
  The user handler then throws the ReferenceError of the statement \<open>i;\<close> before its
  test for an empty set, and the order handler, which has no such test, hands three
  undefined values to the statement helper, which refuses them. Neither answers 400;
  the store is unchanged in both.
\<close>

theorem patch_empty_field_set:
  "safeParse rt UpdateUserSchema (JObj []) = Inr [] \<and> defined_fields ([] :: 'n row) = [] \<and>
   patch_users_id rt uid (JObj []) st = (Uncaught (ReferenceError ''i''), st) \<and>
   safeParse rt UpdateOrderSchema (JObj []) = Inr [] \<and>
   patch_orders_id rt oid (JObj []) st = (Uncaught (PostgresError ''UNDEFINED_VALUE''), st)"
  by (simp add: parse_empty_update defined_fields_def patch_users_id_def read_i
        patch_orders_id_def sql_helper_def field_def)

section \<open>Reading users\<close>

text \<open>
  Claim C4, on the sample store. The schema \<open>getUsers\<close> is \<open>UserSchema\<close> with nothing
  omitted, so the list of users carries each stored password, and the handler for one
  user answers with the stored row as it is.
\<close>

theorem user_reads_return_password:
  "getUsers = UserSchema \<and>
   field ada ''password'' = JStr ''$2b$10$N9qo8uLOickgx2ZMRZoMye'' \<and>
   get_users sample_rt sample_store = (Response 200 (JArr [JObj ada]), sample_store) \<and>
   get_users_id sample_rt ''1'' sample_store = (Response 200 (JObj ada), sample_store)"
  by (simp add: getUsers_keeps_password get_users_def get_users_id_def safeParse_def
        UserSchema_def sample_defs field_def select_by_id_def where_id_def column_def
        first_row_def json_of_def)

section \<open>Creating products\<close>

text \<open>
  Claim C5, for the relational \<open>POST /products\<close>. A body that passes validation is
  inserted with the identifier the table assigns, but the answer is \<open>product[0]\<close> of
  the inserted row, which is \<open>undefined\<close>: the response echoes no field and carries no
  identifier.
\<close>

theorem post_products_answers_undefined:
  assumes "safeParse rt CreateProductSchema (JObj inp) = Inr data"
  shows "post_products rt env (JObj inp) st =
           (Response 200 JUndefined,
            st\<lparr>products := products st @ [(''id'', next_id env) # data]\<rparr>)"
proof -
  from parse_product [OF assms] obtain a b p where
    d: "data = [(''name'', JStr a), (''about'', JStr b), (''price'', JNum p)]"
    by blast
  have "sql_helper data [''name'', ''about'', ''price''] = Inr data"
    by (simp add: d sql_helper_def field_def)
  moreover have "read_property (Some ((''id'', next_id env) # data)) ''0'' = Inr JUndefined"
    by (simp add: d read_property_def field_def)
  ultimately show ?thesis
    using assms by (simp add: post_products_def insert_returning_def first_row_def)
qed

text \<open>On the sample store, creating a sprocket.\<close>

theorem post_products_answers_undefined_witness:
  "safeParse sample_rt CreateProductSchema product_body =
     Inr [(''name'', JStr ''Sprocket''), (''about'', JStr ''A sprocket''), (''price'', JNum (5 / 2))] \<and>
   post_products sample_rt sample_env product_body sample_store =
     (Response 200 JUndefined,
      sample_store\<lparr>products := [widget, gadget, small_widget,
         [(''id'', JNum 4), (''name'', JStr ''Sprocket''), (''about'', JStr ''A sprocket''),
          (''price'', JNum (5 / 2))]]\<rparr>)"
proof -
  have p: "safeParse sample_rt CreateProductSchema product_body =
     Inr [(''name'', JStr ''Sprocket''), (''about'', JStr ''A sprocket''), (''price'', JNum (5 / 2))]"
    by (simp add: safeParse_def schema_defs product_body_def sample_rt_def)
  from post_products_answers_undefined [OF p [unfolded product_body_def], of sample_env sample_store]
  show ?thesis
    using p by (simp add: product_body_def sample_env_def sample_store_def)
qed

section \<open>Reading one product\<close>

text \<open>
  Claim C6, for \<open>GET /products/:id\<close>. The handler tests \<open>product.length > 0\<close> on the
  row. While no product row has a column named \<open>length\<close>, an identifier that matches a
  product is answered 404, and one that matches none ends in a TypeError; the handler
  never answers 200.
\<close>

theorem get_products_id_never_answers_200:
  assumes "\<forall>r\<in>set (products st). map_of r ''length'' = None"
  shows "get_products_id rt pid st =
           (case find (where_id rt (JStr pid)) (products st) of
              None \<Rightarrow> (Uncaught (TypeError ''length''), st)
            | Some product \<Rightarrow> (Response 404 (message produit_non_trouve), st))"
proof (cases "find (where_id rt (JStr pid)) (products st)")
  case None
  then show ?thesis
    by (simp add: get_products_id_def select_by_id_def first_row_filter read_property_def)
next
  case (Some product)
  then have "product \<in> set (products st)"
    by (auto simp: find_Some_iff)
  with assms have "field product ''length'' = JUndefined"
    by (simp add: field_def)
  with Some show ?thesis
    by (simp add: get_products_id_def select_by_id_def first_row_filter read_property_def
          js_gt_zero_def)
qed

text \<open>On the sample store: the widget has the identifier 1, and nothing has 7.\<close>

theorem get_products_id_never_answers_200_witness:
  "find (where_id sample_rt (JStr ''1'')) (products sample_store) = Some widget \<and>
   get_products_id sample_rt ''1'' sample_store =
     (Response 404 (JObj [(''message'', JStr produit_non_trouve)]), sample_store) \<and>
   find (where_id sample_rt (JStr ''7'')) (products sample_store) = None \<and>
   get_products_id sample_rt ''7'' sample_store = (Uncaught (TypeError ''length''), sample_store)"
proof -
  have a: "\<forall>r\<in>set (products sample_store). map_of r ''length'' = None"
    by (simp add: sample_defs)
  have f1: "find (where_id sample_rt (JStr ''1'')) (products sample_store) = Some widget"
    by (simp add: where_id_def column_def sample_defs)
  have f7: "find (where_id sample_rt (JStr ''7'')) (products sample_store) = None"
    by (simp add: where_id_def column_def sample_defs)
  from get_products_id_never_answers_200 [OF a, of sample_rt "''1''"]
       get_products_id_never_answers_200 [OF a, of sample_rt "''7''"]
  show ?thesis
    by (simp add: f1 f7 message_def)
qed

section \<open>Updating a user that does not exist\<close>

text \<open>
  Claim C7, for \<open>PUT /users/:id\<close>. The handler answers with the first updated row
  without testing it: when the body passes validation and the identifier matches no
  user, the answer is 200 with \<open>undefined\<close>, not 404, and the store is unchanged.
\<close>

theorem put_users_id_unknown_id:
  assumes "safeParse rt CreateUserSchema (JObj inp) = Inr data"
      and "find (where_id rt (JStr uid)) (users st) = None"
  shows "put_users_id rt uid (JObj inp) st = (Response 200 JUndefined, st)"
proof -
  from parse_user [OF assms(1)] obtain a b p where
    d: "data = [(''name'', JStr a), (''email'', JStr b), (''password'', JStr p)]"
    by blast
  have "sql_helper data [''name'', ''email'', ''password''] = Inr data"
    by (simp add: d sql_helper_def field_def)
  then show ?thesis
    using assms by (simp add: put_users_id_def update_none first_row_def json_of_def)
qed

text \<open>On the sample store no user has the identifier 999.\<close>

theorem put_users_id_unknown_id_witness:
  "safeParse sample_rt CreateUserSchema user_body =
     Inr [(''name'', JStr ''Grace''), (''email'', JStr ''grace@example.org''),
          (''password'', JStr ''secret'')] \<and>
   find (where_id sample_rt (JStr ''999'')) (users sample_store) = None \<and>
   put_users_id sample_rt ''999'' user_body sample_store = (Response 200 JUndefined, sample_store)"
proof -
  have p: "safeParse sample_rt CreateUserSchema user_body =
     Inr [(''name'', JStr ''Grace''), (''email'', JStr ''grace@example.org''),
          (''password'', JStr ''secret'')]"
    by (simp add: safeParse_def schema_defs user_body_def sample_rt_def)
  have f: "find (where_id sample_rt (JStr ''999'')) (users sample_store) = None"
    by (simp add: where_id_def column_def sample_defs)
  from put_users_id_unknown_id [OF p [unfolded user_body_def] f] p f show ?thesis
    by (simp add: user_body_def)
qed

section \<open>Deleting a product\<close>

text \<open>
  Claim C8, for \<open>DELETE /products/:id\<close>. The handler tests \<open>product.length > 0\<close> on
  the deleted row. While no product row has a column named \<open>length\<close>, deleting a
  product that exists removes it and answers 404, not 200 with the row.
\<close>

theorem delete_products_id_answers_404:
  assumes "find (where_id rt (JStr pid)) (products st) = Some product"
      and "\<forall>r\<in>set (products st). map_of r ''length'' = None"
  shows "delete_products_id rt pid st =
           (Response 404 (message produit_non_trouve),
            st\<lparr>products := filter (\<lambda>r. \<not> where_id rt (JStr pid) r) (products st)\<rparr>)"
proof -
  from assms(1) have "product \<in> set (products st)"
    by (auto simp: find_Some_iff)
  with assms(2) have "field product ''length'' = JUndefined"
    by (simp add: field_def)
  with assms(1) show ?thesis
    by (simp add: delete_products_id_def delete_by_id_def first_row_filter read_property_def
          js_gt_zero_def)
qed

text \<open>
  On the sample store: the first delete of the widget answers 404 and removes it, and
  the second ends in a TypeError.
\<close>

theorem delete_products_id_answers_404_witness:
  "find (where_id sample_rt (JStr ''1'')) (products sample_store) = Some widget \<and>
   delete_products_id sample_rt ''1'' sample_store =
     (Response 404 (JObj [(''message'', JStr produit_non_trouve)]),
      sample_store\<lparr>products := [gadget, small_widget]\<rparr>) \<and>
   delete_products_id sample_rt ''1'' (sample_store\<lparr>products := [gadget, small_widget]\<rparr>) =
     (Uncaught (TypeError ''length''), sample_store\<lparr>products := [gadget, small_widget]\<rparr>)"
proof -
  have a: "\<forall>r\<in>set (products sample_store). map_of r ''length'' = None"
    by (simp add: sample_defs)
  have f1: "find (where_id sample_rt (JStr ''1'')) (products sample_store) = Some widget"
    by (simp add: where_id_def column_def sample_defs)
  have rest: "filter (\<lambda>r. \<not> where_id sample_rt (JStr ''1'') r) (products sample_store) =
          [gadget, small_widget]"
    by (simp add: where_id_def column_def sample_defs)
  have again: "delete_products_id sample_rt ''1'' (sample_store\<lparr>products := [gadget, small_widget]\<rparr>) =
     (Uncaught (TypeError ''length''), sample_store\<lparr>products := [gadget, small_widget]\<rparr>)"
    by (simp add: delete_products_id_def delete_by_id_def first_row_def read_property_def
          where_id_def column_def sample_defs)
  from delete_products_id_answers_404 [OF f1 a] f1 rest again show ?thesis
    by (simp add: message_def)
qed

section \<open>The filtered read of products\<close>

text \<open>
  Claim C9, as amended. The result of \<open>GET /products\<close> is, in table order, exactly the
  rows that pass the equality predicate of every filter among \<open>name\<close>, \<open>about\<close> and
  \<open>price\<close> whose value is a non-empty string, the price being compared with
  \<open>parseFloat\<close> of the value. A filter that is absent or empty adds no predicate, so
  with none the result is every row. The answer is always 200 and the store is
  unchanged.
\<close>

theorem get_products_filters:
  "get_products rt query st =
     (Response 200
        (JArr (map JObj (filter
           (\<lambda>r. (\<forall>s. query ''name'' = Some s \<and> s \<noteq> [] \<longrightarrow>
                       sql_eq rt (column r ''name'') (JStr s)) \<and>
                (\<forall>s. query ''about'' = Some s \<and> s \<noteq> [] \<longrightarrow>
                       sql_eq rt (column r ''about'') (JStr s)) \<and>
                (\<forall>s. query ''price'' = Some s \<and> s \<noteq> [] \<longrightarrow>
                       sql_eq rt (column r ''price'') (JNum (parseFloat rt s))))
           (products st)))), st) \<and>
   (query ''name'' = None \<and> query ''about'' = None \<and> query ''price'' = None \<longrightarrow>
      get_products rt query st = (Response 200 (JArr (map JObj (products st))), st))"
proof -
  have name: "query ''name'' = None \<or> query ''name'' = Some [] \<or>
                (\<exists>a. query ''name'' = Some a \<and> a \<noteq> [])"
    by (cases "query ''name''") auto
  have about: "query ''about'' = None \<or> query ''about'' = Some [] \<or>
                 (\<exists>b. query ''about'' = Some b \<and> b \<noteq> [])"
    by (cases "query ''about''") auto
  have price: "query ''price'' = None \<or> query ''price'' = Some [] \<or>
                 (\<exists>c. query ''price'' = Some c \<and> c \<noteq> [])"
    by (cases "query ''price''") auto
  from name about price show ?thesis
    by (elim disjE exE conjE)
       (simp_all add: get_products_def push_absent push_present sql_unsafe_def
          satisfies_def [abs_def])
qed

text \<open>
  On the sample store: the name Widget with the price 9.99 selects the small widget
  alone, and no filter selects all three products.
\<close>

theorem get_products_filters_witness:
  "get_products sample_rt [''name'' \<mapsto> ''Widget'', ''price'' \<mapsto> ''9.99''] sample_store =
     (Response 200 (JArr [JObj small_widget]), sample_store) \<and>
   get_products sample_rt Map.empty sample_store =
     (Response 200 (JArr [JObj widget, JObj gadget, JObj small_widget]), sample_store)"
proof -
  from get_products_filters [of sample_rt "[''name'' \<mapsto> ''Widget'', ''price'' \<mapsto> ''9.99'']" sample_store]
       get_products_filters [of sample_rt Map.empty sample_store]
  show ?thesis
    by (simp add: decimal_9_99 column_def sample_rt_def sample_sql_eq_def sample_store_def
          widget_def gadget_def small_widget_def)
qed

text \<open>
  The claim as worded fails on a filter supplied with an empty value: for
  \<open>?name=&price=9.99\<close> the handler returns the two products priced 9.99, whose names
  are not empty, while no row passes both supplied predicates.
\<close>

theorem get_products_empty_filter_counterexample:
  "get_products sample_rt [''name'' \<mapsto> [], ''price'' \<mapsto> ''9.99''] sample_store =
     (Response 200 (JArr [JObj gadget, JObj small_widget]), sample_store) \<and>
   filter (satisfies sample_rt
             (spec_predicates sample_rt [''name'' \<mapsto> [], ''price'' \<mapsto> ''9.99'']))
     (products sample_store) = [] \<and>
   get_products sample_rt [''name'' \<mapsto> [], ''price'' \<mapsto> ''9.99''] sample_store \<noteq>
     (Response 200
        (JArr (map JObj (filter
           (satisfies sample_rt
              (spec_predicates sample_rt [''name'' \<mapsto> [], ''price'' \<mapsto> ''9.99'']))
           (products sample_store)))), sample_store)"
proof -
  have "push_condition ''price'' (Some ''9.99'') (\<lambda>s. JNum (parseFloat sample_rt s))
          (push_condition ''about'' None JStr (push_condition ''name'' (Some []) JStr ([], []))) =
        ([(''price'', 1)], [JNum (999 / 100)])"
    by (simp add: push_condition_def decimal_9_99 sample_rt_def)
  then have "get_products sample_rt [''name'' \<mapsto> [], ''price'' \<mapsto> ''9.99''] sample_store =
     (Response 200 (JArr [JObj gadget, JObj small_widget]), sample_store)"
    by (simp add: get_products_def sql_unsafe_def satisfies_def column_def sample_rt_def
          sample_sql_eq_def sample_store_def widget_def gadget_def small_widget_def)
  moreover have "filter (satisfies sample_rt
             (spec_predicates sample_rt [''name'' \<mapsto> [], ''price'' \<mapsto> ''9.99'']))
     (products sample_store) = []"
    by (simp add: spec_predicates_def satisfies_def column_def decimal_9_99 sample_rt_def
          sample_sql_eq_def sample_store_def widget_def gadget_def small_widget_def)
  ultimately show ?thesis
    by simp
qed

section \<open>User creation\<close>

text \<open>
  Claim C10. The name \<open>bcrypt\<close> is bound nowhere in the module, so every request to
  create a user whose body passes validation ends in a ReferenceError before any insert;
  whatever the body, the store is unchanged and the handler never answers 200.
\<close>

theorem post_users_throws:
  "(\<forall>data. safeParse rt CreateUserSchema body = Inr data \<longrightarrow>
      post_users rt h env body st = (Uncaught (ReferenceError ''bcrypt''), st))
   \<and> snd (post_users rt h env body st) = st
   \<and> (\<forall>b. fst (post_users rt h env body st) \<noteq> Response 200 b)"
  by (auto simp: post_users_def read_bcrypt message_def split: sum.splits)

text \<open>A body that passes validation, on the sample store.\<close>

theorem post_users_throws_witness:
  "safeParse sample_rt CreateUserSchema user_body =
     Inr [(''name'', JStr ''Grace''), (''email'', JStr ''grace@example.org''),
          (''password'', JStr ''secret'')] \<and>
   post_users sample_rt id sample_env user_body sample_store =
     (Uncaught (ReferenceError ''bcrypt''), sample_store)"
proof -
  have p: "safeParse sample_rt CreateUserSchema user_body =
     Inr [(''name'', JStr ''Grace''), (''email'', JStr ''grace@example.org''),
          (''password'', JStr ''secret'')]"
    by (simp add: safeParse_def schema_defs sample_defs)
  with post_users_throws [of sample_rt user_body id sample_env sample_store] show ?thesis
    by simp
qed

end
